theory Spec2Isabelle
  imports Main "HOL-Library.Sublist" "HOL-Library.Word"
begin

section \<open>Path functions of the Go standard library (Unix)\<close>

text \<open>
  The guards of \<^verbatim>\<open>hostinger/restorer_filter.go\<close> call \<^verbatim>\<open>strings.HasPrefix\<close> and
  the \<^verbatim>\<open>path/filepath\<close> functions \<^verbatim>\<open>IsAbs\<close>, \<^verbatim>\<open>Clean\<close>, \<^verbatim>\<open>Join\<close>, \<^verbatim>\<open>Dir\<close>,
  \<^verbatim>\<open>Base\<close> and \<^verbatim>\<open>Abs\<close>. They are pure string functions; the definitions below follow
  their Unix implementation (separator \<^verbatim>\<open>/\<close>, empty volume name). A Go string is a
  byte sequence, here a \<^typ>\<open>string\<close>.
\<close>

definition IsPathSeparator :: "char \<Rightarrow> bool" where
  "IsPathSeparator c \<longleftrightarrow> c = CHR ''/''"

text \<open>\<^verbatim>\<open>len(s) >= len(prefix) && s[:len(prefix)] == prefix\<close>\<close>

definition HasPrefix :: "string \<Rightarrow> string \<Rightarrow> bool" where
  "HasPrefix s pre \<longleftrightarrow> length pre \<le> length s \<and> take (length pre) s = pre"

definition IsAbs :: "string \<Rightarrow> bool" where
  "IsAbs path \<longleftrightarrow> HasPrefix path ''/''"

text \<open>
  The inner loop of the \<^verbatim>\<open>..\<close> case of \<^verbatim>\<open>Clean\<close>: starting from write index \<open>w\<close>
  (already decremented once), step back while \<open>w > dotdot\<close> and the byte at \<open>w\<close> is
  not a separator.
\<close>

fun backtrack :: "string \<Rightarrow> nat \<Rightarrow> nat \<Rightarrow> nat" where
  "backtrack buf dotdot w =
     (if w > dotdot \<and> \<not> IsPathSeparator (buf ! w) then backtrack buf dotdot (w - 1) else w)"

declare backtrack.simps [simp del]

text \<open>A \<^verbatim>\<open>.\<close> element: \<^verbatim>\<open>path[r] == '.' && (r+1 == n || IsPathSeparator(path[r+1]))\<close>.\<close>

definition is_dot :: "char \<Rightarrow> string \<Rightarrow> bool" where
  "is_dot c cs \<longleftrightarrow>
     c = CHR ''.'' \<and> (case cs of [] \<Rightarrow> True | d # _ \<Rightarrow> IsPathSeparator d)"

text \<open>
  A \<^verbatim>\<open>..\<close> element:
  \<^verbatim>\<open>path[r] == '.' && path[r+1] == '.' && (r+2 == n || IsPathSeparator(path[r+2]))\<close>.
\<close>

definition is_dotdot :: "char \<Rightarrow> string \<Rightarrow> bool" where
  "is_dotdot c cs \<longleftrightarrow>
     c = CHR ''.'' \<and>
     (case cs of
        [] \<Rightarrow> False
      | d # ds \<Rightarrow> d = CHR ''.'' \<and> (case ds of [] \<Rightarrow> True | e # _ \<Rightarrow> IsPathSeparator e))"

text \<open>
  The main loop of \<^verbatim>\<open>Clean\<close>. \<open>out\<close> is the output buffer written so far (its length
  is the write index \<open>w\<close>), \<open>dotdot\<close> the index where backtracking must stop, and the
  last argument the unread rest of the path.
\<close>

function clean_loop :: "bool \<Rightarrow> string \<Rightarrow> nat \<Rightarrow> string \<Rightarrow> string" where
  "clean_loop rooted out dotdot [] = out"
| "clean_loop rooted out dotdot (c # cs) =
     (if IsPathSeparator c then clean_loop rooted out dotdot cs
      else if is_dot c cs then clean_loop rooted out dotdot cs
      else if is_dotdot c cs then
        (if length out > dotdot then
           clean_loop rooted (take (backtrack out dotdot (length out - 1)) out) dotdot (tl cs)
         else if \<not> rooted then
           (let out' = (if length out > 0 then out @ ''/'' else out) @ ''..''
            in clean_loop rooted out' (length out') (tl cs))
         else clean_loop rooted out dotdot (tl cs))
      else
        (let out' = (if rooted \<and> length out \<noteq> 1 \<or> \<not> rooted \<and> length out \<noteq> 0
                     then out @ ''/'' else out)
         in clean_loop rooted (out' @ takeWhile (\<lambda>x. \<not> IsPathSeparator x) (c # cs)) dotdot
              (dropWhile (\<lambda>x. \<not> IsPathSeparator x) (c # cs))))"
  by pat_completeness auto
termination
  by (relation "measure (\<lambda>(rooted, out, dotdot, p). length p)")
     (auto simp: less_Suc_eq_le length_dropWhile_le)

declare clean_loop.simps(2) [simp del]

definition Clean :: "string \<Rightarrow> string" where
  "Clean path =
     (if path = [] then ''.''
      else
        let rooted = IsPathSeparator (hd path);
            out = clean_loop rooted (if rooted then ''/'' else []) (if rooted then 1 else 0)
                    (if rooted then tl path else path)
        in if out = [] then ''.'' else out)"

text \<open>\<^verbatim>\<open>strings.Join(elems, sep)\<close>\<close>

fun strings_Join :: "string list \<Rightarrow> string \<Rightarrow> string" where
  "strings_Join [] sep = []"
| "strings_Join [e] sep = e"
| "strings_Join (e # e' # es) sep = e @ sep @ strings_Join (e' # es) sep"

text \<open>
  \<^verbatim>\<open>filepath.Join\<close>: the elements from the first non-empty one on are joined with the
  separator and cleaned; with no non-empty element the result is the empty string.
\<close>

fun Join :: "string list \<Rightarrow> string" where
  "Join [] = []"
| "Join (e # es) = (if e \<noteq> [] then Clean (strings_Join (e # es) ''/'') else Join es)"

text \<open>
  \<^verbatim>\<open>filepath.Dir\<close>: everything up to and including the last separator, cleaned.
\<close>

definition Dir :: "string \<Rightarrow> string" where
  "Dir path = Clean (rev (dropWhile (\<lambda>c. \<not> IsPathSeparator c) (rev path)))"

text \<open>
  \<^verbatim>\<open>filepath.Base\<close>: trailing separators are stripped, then the last element is
  taken; the empty path gives \<^verbatim>\<open>.\<close>, a path of separators only gives \<^verbatim>\<open>/\<close>.
\<close>

definition Base :: "string \<Rightarrow> string" where
  "Base path =
     (if path = [] then ''.''
      else
        let p = rev (dropWhile IsPathSeparator (rev path));
            e = rev (takeWhile (\<lambda>c. \<not> IsPathSeparator c) (rev p))
        in if e = [] then ''/'' else e)"

section \<open>The operating system as seen by the guards\<close>

text \<open>
  The guards read the file system through \<^verbatim>\<open>fs.Lstat\<close> (only its error is used),
  \<^verbatim>\<open>filepath.EvalSymlinks\<close> and, at construction, \<^verbatim>\<open>os.Getwd\<close> (inside
  \<^verbatim>\<open>filepath.Abs\<close>). The state of the file system is a parameter of the model: a record
  of the answers these calls give. An error is a value.
\<close>

datatype os_error = ErrNotExist | ErrPermission | ErrTooManyLinks | ErrOther

text \<open>\<^verbatim>\<open>os.IsNotExist(err)\<close> on a non-nil error.\<close>

definition IsNotExist :: "os_error \<Rightarrow> bool" where
  "IsNotExist e \<longleftrightarrow> e = ErrNotExist"

record os_state =
  Lstat :: "string \<Rightarrow> os_error option"
  EvalSymlinks :: "string \<Rightarrow> os_error + string"
  Getwd :: "os_error + string"

text \<open>\<^verbatim>\<open>filepath.Abs\<close> (Unix).\<close>

definition Abs :: "os_state \<Rightarrow> string \<Rightarrow> os_error + string" where
  "Abs os path =
     (if IsAbs path then Inr (Clean path)
      else case Getwd os of
             Inl err \<Rightarrow> Inl err
           | Inr wd \<Rightarrow> Inr (Join [wd, path]))"

section \<open>Nodes and diagnostics\<close>

datatype node_type =
  NodeTypeFile | NodeTypeDir | NodeTypeSymlink | NodeTypeDev | NodeTypeCharDev
  | NodeTypeFifo | NodeTypeSocket | NodeTypeIrregular | NodeTypeInvalid

text \<open>The two fields of \<^verbatim>\<open>restic.Node\<close> that the restore filter reads.\<close>

record node =
  Type :: node_type
  LinkTarget :: string

text \<open>
  One constructor per \<^verbatim>\<open>debug.Log\<close> call site, with the arguments of the call. The
  guards return the list of records they emitted together with their answer.
\<close>

datatype log_record =
  LogDestinationDirOutsideScope string string
  | LogSymlinkOutsideScope string string string
  | LogItemOutsideScope string string string
  | LogCouldNotEvalSymlinks string
  | LogEvalPathOutsideScope string string string

section \<open>The restore filter\<close>

text \<open>
  Lines 18 to 35 of \<^verbatim>\<open>SymlinkScopeNodeFilter\<close>: the block that resolves an existing
  destination directory. \<open>Inl\<close> is an early return of the filter with its answer and
  log; \<open>Inr\<close> is the value of \<^verbatim>\<open>dstdir\<close> after the block.
\<close>

definition resolve_dstdir ::
  "os_state \<Rightarrow> string \<Rightarrow> string \<Rightarrow> (bool \<times> log_record list) + string" where
  "resolve_dstdir os scope dstdir =
     (if (case Lstat os dstdir of None \<Rightarrow> True | Some err \<Rightarrow> \<not> IsNotExist err) then
        (case EvalSymlinks os dstdir of
           Inl err \<Rightarrow> Inl (False, [])
         | Inr evaldstdir \<Rightarrow>
             if evaldstdir \<noteq> dstdir \<and>
                \<not> HasPrefix evaldstdir scope \<and> \<not> HasPrefix scope evaldstdir
             then Inl (False, [LogDestinationDirOutsideScope evaldstdir scope])
             else Inr evaldstdir)
      else Inr dstdir)"

text \<open>Lines 53 to 71: the check of the symlink target or of the item's own target.\<close>

definition check_target ::
  "string \<Rightarrow> string \<Rightarrow> string \<Rightarrow> node \<Rightarrow> bool \<times> log_record list" where
  "check_target scope dstdir item nd =
     (if Type nd = NodeTypeSymlink then
        (let target = Clean (LinkTarget nd);
             target = (if \<not> IsAbs target then Join [dstdir, target] else target)
         in if \<not> HasPrefix target scope
            then (False, [LogSymlinkOutsideScope item target scope])
            else (True, []))
      else
        (let target = Join [dstdir, Base item]
         in if \<not> HasPrefix target scope \<and> \<not> HasPrefix scope target
            then (False, [LogItemOutsideScope item target scope])
            else (True, [])))"

text \<open>
  The closure returned by \<^verbatim>\<open>SymlinkScopeNodeFilter(scope)\<close>, applied to an item and
  its node, in a given state of the file system.
\<close>

definition SymlinkScopeNodeFilter ::
  "os_state \<Rightarrow> string \<Rightarrow> string \<Rightarrow> node \<Rightarrow> bool \<times> log_record list" where
  "SymlinkScopeNodeFilter os scope item nd =
     (case resolve_dstdir os scope (Dir item) of
        Inl answer \<Rightarrow> answer
      | Inr dstdir \<Rightarrow> check_target scope dstdir item nd)"

section \<open>The backup guard\<close>

text \<open>
  The closure returned by \<^verbatim>\<open>RejectSymlinksOutsideScope\<close>; its parameters \<^verbatim>\<open>fi\<close> and
  \<^verbatim>\<open>fs\<close> are not read. \<open>True\<close> means that the entry is excluded.
\<close>

definition RejectFunc :: "os_state \<Rightarrow> string \<Rightarrow> string \<Rightarrow> bool \<times> log_record list" where
  "RejectFunc os scopePath path =
     (case EvalSymlinks os path of
        Inl err \<Rightarrow> (True, [LogCouldNotEvalSymlinks path])
      | Inr target \<Rightarrow>
          if \<not> HasPrefix target scopePath
          then (True, [LogEvalPathOutsideScope path target scopePath])
          else (False, []))"

definition RejectSymlinksOutsideScope ::
  "os_state \<Rightarrow> string \<Rightarrow> os_error + (string \<Rightarrow> bool \<times> log_record list)" where
  "RejectSymlinksOutsideScope os scopePath =
     (if \<not> IsAbs scopePath then
        (case Abs os scopePath of
           Inl err \<Rightarrow> Inl err
         | Inr scopePath' \<Rightarrow> Inr (RejectFunc os scopePath'))
      else Inr (RejectFunc os scopePath))"

section \<open>Concrete file-system states\<close>

text \<open>
  A state given by two tables: the answers of \<^verbatim>\<open>Lstat\<close> and of \<^verbatim>\<open>EvalSymlinks\<close>.
  A path in neither table does not exist. The working directory is the root.
\<close>

definition table_os ::
  "(string \<times> os_error option) list \<Rightarrow> (string \<times> (os_error + string)) list \<Rightarrow> os_state" where
  "table_os lstats evals =
     \<lparr> Lstat = (\<lambda>p. case map_of lstats p of None \<Rightarrow> Some ErrNotExist | Some r \<Rightarrow> r),
       EvalSymlinks = (\<lambda>p. case map_of evals p of None \<Rightarrow> Inl ErrNotExist | Some r \<Rightarrow> r),
       Getwd = Inr ''/'' \<rparr>"

text \<open>
  A restore target in which \<^verbatim>\<open>/restore/data\<close> is a dangling symlink left on disk and
  \<^verbatim>\<open>/restore/locked\<close> a directory that may not be searched, so that nothing below it
  can be examined; a backup source with the dangling symlink \<^verbatim>\<open>/tmp/t/dangling\<close>.
\<close>

definition unresolvable_os :: os_state where
  "unresolvable_os =
     table_os
       [(''/restore'', None), (''/restore/data'', None), (''/restore/locked'', None),
        (''/restore/locked/sub'', Some ErrPermission),
        (''/tmp/t'', None), (''/tmp/t/dangling'', None)]
       [(''/restore'', Inr ''/restore''), (''/restore/data'', Inl ErrNotExist),
        (''/restore/locked'', Inr ''/restore/locked''),
        (''/restore/locked/sub'', Inl ErrPermission),
        (''/tmp/t'', Inr ''/tmp/t''), (''/tmp/t/dangling'', Inl ErrNotExist)]"

definition file_node :: node where
  "file_node = \<lparr>Type = NodeTypeFile, LinkTarget = []\<rparr>"

definition symlink_node :: "string \<Rightarrow> node" where
  "symlink_node target = \<lparr>Type = NodeTypeSymlink, LinkTarget = target\<rparr>"


text \<open>
  A restore target \<^verbatim>\<open>/restore\<close> with scope candidates below \<^verbatim>\<open>/restore/testdata\<close>:
  \<^verbatim>\<open>evil\<close> is a symlink to \<^verbatim>\<open>/etc\<close>, \<^verbatim>\<open>link\<close> a symlink to the directory \<^verbatim>\<open>real\<close>
  beside it. Nothing else exists below them.
\<close>

definition restore_os :: os_state where
  "restore_os =
     table_os
       [(''/restore'', None), (''/restore/testdata'', None), (''/restore/testdata/evil'', None),
        (''/restore/testdata/link'', None), (''/restore/testdata/real'', None), (''/etc'', None)]
       [(''/restore'', Inr ''/restore''), (''/restore/testdata'', Inr ''/restore/testdata''),
        (''/restore/testdata/evil'', Inr ''/etc''),
        (''/restore/testdata/link'', Inr ''/restore/testdata/real''),
        (''/restore/testdata/real'', Inr ''/restore/testdata/real''), (''/etc'', Inr ''/etc'')]"

text \<open>
  The backup source of the repository's test of the backup guard, under \<^verbatim>\<open>/tmp/t\<close>:
  the scope directory \<^verbatim>\<open>foodir\<close>, the symlinks \<^verbatim>\<open>123\<close> (to \<^verbatim>\<open>foodir/foo\<close>),
  \<^verbatim>\<open>1234\<close> (to \<^verbatim>\<open>..\<close>), \<^verbatim>\<open>foodir/outsidefoo4\<close> (to \<^verbatim>\<open>/tmp/t\<close>) and
  \<^verbatim>\<open>bardir/insidebar\<close> (to \<^verbatim>\<open>bardir\<close>), and in addition a sibling directory
  \<^verbatim>\<open>foodir2\<close> with a file \<^verbatim>\<open>x\<close>.
\<close>

definition backup_os :: os_state where
  "backup_os =
     table_os
       [(''/tmp/t'', None), (''/tmp/t/foodir'', None), (''/tmp/t/foodir/foo'', None),
        (''/tmp/t/foodir/outsidefoo4'', None), (''/tmp/t/123'', None), (''/tmp/t/1234'', None),
        (''/tmp/t/bardir'', None), (''/tmp/t/bardir/insidebar'', None),
        (''/tmp/t/foodir2'', None), (''/tmp/t/foodir2/x'', None)]
       [(''/tmp/t'', Inr ''/tmp/t''), (''/tmp/t/foodir'', Inr ''/tmp/t/foodir''),
        (''/tmp/t/foodir/foo'', Inr ''/tmp/t/foodir/foo''),
        (''/tmp/t/foodir/outsidefoo4'', Inr ''/tmp/t''),
        (''/tmp/t/123'', Inr ''/tmp/t/foodir/foo''), (''/tmp/t/1234'', Inr ''/tmp''),
        (''/tmp/t/bardir'', Inr ''/tmp/t/bardir''),
        (''/tmp/t/bardir/insidebar'', Inr ''/tmp/t/bardir''),
        (''/tmp/t/foodir2'', Inr ''/tmp/t/foodir2''),
        (''/tmp/t/foodir2/x'', Inr ''/tmp/t/foodir2/x'')]"

text \<open>
  A root directory with \<^verbatim>\<open>/foodir\<close>, its sibling \<^verbatim>\<open>/foodir2\<close> holding the file
  \<^verbatim>\<open>x\<close>, and the symlink \<^verbatim>\<open>/link\<close> to that file.
\<close>

definition sibling_os :: os_state where
  "sibling_os =
     table_os
       [(''/foodir'', None), (''/foodir2'', None), (''/foodir2/x'', None), (''/link'', None)]
       [(''/foodir'', Inr ''/foodir''), (''/foodir2'', Inr ''/foodir2''),
        (''/foodir2/x'', Inr ''/foodir2/x''), (''/link'', Inr ''/foodir2/x'')]"

text \<open>
  The restore target of the repository's restore test after the directories of the
  snapshot have been created: \<^verbatim>\<open>/b/restore0/testdata/subdir1/subdir2\<close>, no symlink among
  the ancestors.
\<close>

definition restore_test_os :: os_state where
  "restore_test_os =
     table_os
       [(''/b/restore0'', None), (''/b/restore0/testdata'', None),
        (''/b/restore0/testdata/subdir1'', None),
        (''/b/restore0/testdata/subdir1/subdir2'', None)]
       [(''/b/restore0'', Inr ''/b/restore0''),
        (''/b/restore0/testdata'', Inr ''/b/restore0/testdata''),
        (''/b/restore0/testdata/subdir1'', Inr ''/b/restore0/testdata/subdir1''),
        (''/b/restore0/testdata/subdir1/subdir2'', Inr ''/b/restore0/testdata/subdir1/subdir2'')]"

section \<open>Containment by path elements\<close>

text \<open>
  The notion the string-prefix test is compared with, the component-wise comparison of
  the specification's design notes: a path is split at its separators into its non-empty
  elements, and it lies within a root when the elements of the root are a prefix of its
  own elements.
\<close>

primrec path_elements_from :: "string \<Rightarrow> string \<Rightarrow> string list" where
  "path_elements_from cur [] = (if cur = [] then [] else [cur])"
| "path_elements_from cur (c # cs) =
     (if IsPathSeparator c then (if cur = [] then [] else [cur]) @ path_elements_from [] cs
      else path_elements_from (cur @ [c]) cs)"

definition path_elements :: "string \<Rightarrow> string list" where
  "path_elements p = path_elements_from [] p"

definition path_within :: "string \<Rightarrow> string \<Rightarrow> bool" where
  "path_within root p \<longleftrightarrow> prefix (path_elements root) (path_elements p)"

text \<open>
  A path in the form that resolution returns for an absolute path, as far as separators
  go: a leading separator, single separators between the elements, none at the end.
\<close>

definition separator_canonical :: "string \<Rightarrow> bool" where
  "separator_canonical p \<longleftrightarrow> p = ''/'' @ strings_Join (path_elements p) ''/''"

section \<open>The device map\<close>

datatype device_error = ItemNotFound

text \<open>
  Modelled from the spec: \<^verbatim>\<open>deviceMap.IsAllowed\<close> is not among the source files, only its
  test \<^verbatim>\<open>TestDeviceMap\<close> is. The registry maps a path to a device id (an unsigned 64-bit
  integer). The candidates are given longest first; the first registered one is the
  longest registered one.
\<close>

fun longest_registered ::
  "(string \<rightharpoonup> 64 word) \<Rightarrow> string list \<Rightarrow> (string \<times> 64 word) option" where
  "longest_registered m [] = None"
| "longest_registered m (dir # dirs) =
     (case m dir of
        Some allowedID \<Rightarrow> Some (dir, allowedID)
      | None \<Rightarrow> longest_registered m dirs)"

text \<open>
  Modelled from the spec: \<^verbatim>\<open>deviceMap.IsAllowed\<close> is not among the source files. The
  lookup finds the longest registered key that is a string prefix of the item path and
  compares the device id recorded there with the item's: allowed iff equal. With no
  registered prefix there is no answer (a caller error).
\<close>

definition IsAllowed ::
  "(string \<rightharpoonup> 64 word) \<Rightarrow> string \<Rightarrow> 64 word \<Rightarrow> device_error + bool" where
  "IsAllowed m item deviceID =
     (case longest_registered m (rev (prefixes item)) of
        None \<Rightarrow> Inl ItemNotFound
      | Some (dir, allowedID) \<Rightarrow> Inr (allowedID = deviceID))"

text \<open>The registry of \<^verbatim>\<open>TestDeviceMap\<close>.\<close>

definition test_deviceMap :: "string \<rightharpoonup> 64 word" where
  "test_deviceMap = [''/'' \<mapsto> 1, ''/usr/local'' \<mapsto> 5]"

section \<open>Properties of the guards\<close>

lemma HasPrefix_iff_prefix: "HasPrefix s pre \<longleftrightarrow> prefix pre s"
  by (auto simp: HasPrefix_def prefix_def take_is_prefix dest: prefix_length_le)
     (metis append_eq_conv_conj)

lemma HasPrefix_refl: "HasPrefix s s"
  by (simp add: HasPrefix_def)

text \<open>
  Claim C4. When symlink resolution fails, both guards reject, and neither propagates
  the error (each returns a plain answer): the backup guard built for any scope returns
  \<open>True\<close> (exclude) when \<^verbatim>\<open>EvalSymlinks\<close> of the candidate path fails, and the restore
  filter returns \<open>False\<close> (disallow) when \<^verbatim>\<open>Lstat\<close> of the destination directory does
  not report that it is missing and \<^verbatim>\<open>EvalSymlinks\<close> of it fails.
\<close>

theorem resolution_failure_rejects:
  "(RejectSymlinksOutsideScope os scopePath = Inr reject \<and> EvalSymlinks os path = Inl err
      \<longrightarrow> fst (reject path) = True) \<and>
   (Lstat os (Dir item) \<noteq> Some ErrNotExist \<and> EvalSymlinks os (Dir item) = Inl err'
      \<longrightarrow> fst (SymlinkScopeNodeFilter os scope item nd) = False)"
proof (intro conjI impI)
  assume a: "RejectSymlinksOutsideScope os scopePath = Inr reject \<and> EvalSymlinks os path = Inl err"
  then obtain sp where "reject = RejectFunc os sp"
    by (auto simp: RejectSymlinksOutsideScope_def split: if_splits sum.splits)
  with a show "fst (reject path) = True"
    by (simp add: RejectFunc_def)
next
  assume b: "Lstat os (Dir item) \<noteq> Some ErrNotExist \<and> EvalSymlinks os (Dir item) = Inl err'"
  then have "resolve_dstdir os scope (Dir item) = Inl (False, [])"
    by (auto simp: resolve_dstdir_def IsNotExist_def split: option.splits)
  then show "fst (SymlinkScopeNodeFilter os scope item nd) = False"
    by (simp add: SymlinkScopeNodeFilter_def)
qed

theorem resolution_failure_rejects_witness:
  "RejectSymlinksOutsideScope unresolvable_os ''/tmp/t/foodir''
     = Inr (RejectFunc unresolvable_os ''/tmp/t/foodir'') \<and>
   EvalSymlinks unresolvable_os ''/tmp/t/dangling'' = Inl ErrNotExist \<and>
   fst (RejectFunc unresolvable_os ''/tmp/t/foodir'' ''/tmp/t/dangling'') = True \<and>
   Lstat unresolvable_os (Dir ''/restore/data/f'') \<noteq> Some ErrNotExist \<and>
   EvalSymlinks unresolvable_os (Dir ''/restore/data/f'') = Inl ErrNotExist \<and>
   fst (SymlinkScopeNodeFilter unresolvable_os ''/restore'' ''/restore/data/f'' file_node) = False"
proof -
  have c: "RejectSymlinksOutsideScope unresolvable_os ''/tmp/t/foodir''
             = Inr (RejectFunc unresolvable_os ''/tmp/t/foodir'')"
    by (simp add: RejectSymlinksOutsideScope_def IsAbs_def HasPrefix_def)
  have e: "EvalSymlinks unresolvable_os ''/tmp/t/dangling'' = Inl ErrNotExist"
    by (simp add: unresolvable_os_def table_os_def)
  have d: "Dir ''/restore/data/f'' = ''/restore/data''"
    by code_simp
  have l: "Lstat unresolvable_os (Dir ''/restore/data/f'') \<noteq> Some ErrNotExist"
    unfolding d by (simp add: unresolvable_os_def table_os_def)
  have e': "EvalSymlinks unresolvable_os (Dir ''/restore/data/f'') = Inl ErrNotExist"
    unfolding d by (simp add: unresolvable_os_def table_os_def)
  from resolution_failure_rejects
         [of unresolvable_os "''/tmp/t/foodir''" "RejectFunc unresolvable_os ''/tmp/t/foodir''"
             "''/tmp/t/dangling''" ErrNotExist "''/restore/data/f''" ErrNotExist "''/restore''"
             file_node]
       c e l e'
  show ?thesis by simp
qed







text \<open>
  Claim C5. For a node that is not a symlink, the restore filter allows the node if and
  only if the ancestor-resolution step leaves an effective destination directory and the
  target, that directory joined with the base name of the item path, starts with the
  scope or is a prefix of the scope. In particular a target equal to the scope is allowed.
\<close>

theorem nonsymlink_allowed_iff_compatible:
  assumes "Type nd \<noteq> NodeTypeSymlink"
  shows "(fst (SymlinkScopeNodeFilter os scope item nd) \<longleftrightarrow>
           (\<exists>dstdir. resolve_dstdir os scope (Dir item) = Inr dstdir \<and>
              (HasPrefix (Join [dstdir, Base item]) scope \<or>
               HasPrefix scope (Join [dstdir, Base item])))) \<and>
         (\<forall>dstdir. resolve_dstdir os scope (Dir item) = Inr dstdir \<and>
                    Join [dstdir, Base item] = scope
            \<longrightarrow> fst (SymlinkScopeNodeFilter os scope item nd))"
proof (cases "resolve_dstdir os scope (Dir item)")
  case (Inl answer)
  then have "fst answer = False"
    by (auto simp: resolve_dstdir_def split: if_splits sum.splits)
  with Inl show ?thesis
    by (simp add: SymlinkScopeNodeFilter_def)
next
  case (Inr dstdir)
  with assms show ?thesis
    by (auto simp: SymlinkScopeNodeFilter_def check_target_def Let_def HasPrefix_refl)
qed

theorem nonsymlink_allowed_iff_compatible_witness:
  "Type file_node \<noteq> NodeTypeSymlink \<and>
   resolve_dstdir restore_os ''/restore/testdata'' (Dir ''/restore/testdata'') = Inr ''/restore'' \<and>
   Join [''/restore'', Base ''/restore/testdata''] = ''/restore/testdata'' \<and>
   fst (SymlinkScopeNodeFilter restore_os ''/restore/testdata'' ''/restore/testdata'' file_node)"
proof -
  have ty: "Type file_node \<noteq> NodeTypeSymlink"
    by (simp add: file_node_def)
  have re: "resolve_dstdir restore_os ''/restore/testdata'' (Dir ''/restore/testdata'')
              = Inr ''/restore''"
    by code_simp
  have jo: "Join [''/restore'', Base ''/restore/testdata''] = ''/restore/testdata''"
    by code_simp
  from nonsymlink_allowed_iff_compatible
         [OF ty, of restore_os "''/restore/testdata''" "''/restore/testdata''"] re jo
  have "fst (SymlinkScopeNodeFilter restore_os ''/restore/testdata'' ''/restore/testdata''
               file_node)"
    by blast
  with ty re jo show ?thesis by simp
qed

text \<open>
  Claim C10. When \<^verbatim>\<open>Lstat\<close> reports the parent directory of the item as missing, the
  filter does not resolve it: its answer is that of the remaining checks run on the
  unresolved parent path string, and it is the same whatever \<^verbatim>\<open>EvalSymlinks\<close> would
  have answered. The decision is a function of the strings alone.
\<close>

theorem missing_parent_decided_syntactically:
  assumes "Lstat os (Dir item) = Some ErrNotExist"
  shows "SymlinkScopeNodeFilter os scope item nd = check_target scope (Dir item) item nd \<and>
         SymlinkScopeNodeFilter (os\<lparr>EvalSymlinks := eval\<rparr>) scope item nd
           = SymlinkScopeNodeFilter os scope item nd"
  using assms by (simp add: SymlinkScopeNodeFilter_def resolve_dstdir_def IsNotExist_def)

theorem missing_parent_decided_syntactically_witness:
  "Lstat restore_os (Dir ''/restore/testdata/newdir/f'') = Some ErrNotExist \<and>
   SymlinkScopeNodeFilter restore_os ''/restore/testdata'' ''/restore/testdata/newdir/f'' file_node
     = check_target ''/restore/testdata'' (Dir ''/restore/testdata/newdir/f'')
         ''/restore/testdata/newdir/f'' file_node \<and>
   SymlinkScopeNodeFilter (restore_os\<lparr>EvalSymlinks := (\<lambda>p. Inr ''/etc'')\<rparr>) ''/restore/testdata''
       ''/restore/testdata/newdir/f'' file_node
     = SymlinkScopeNodeFilter restore_os ''/restore/testdata'' ''/restore/testdata/newdir/f''
         file_node"
proof -
  have l: "Lstat restore_os (Dir ''/restore/testdata/newdir/f'') = Some ErrNotExist"
    by code_simp
  from missing_parent_decided_syntactically
         [OF l, of "''/restore/testdata''" file_node "\<lambda>p. Inr ''/etc''"] l
  show ?thesis by simp
qed

text \<open>
  A descendant of a symlinked ancestor that resolves outside the scope is decided on its
  path string alone when its own parent directory is missing.
\<close>

lemma missing_parent_below_symlinked_ancestor:
  "EvalSymlinks restore_os ''/restore/testdata/evil'' = Inr ''/etc'' \<and>
   Lstat restore_os (Dir ''/restore/testdata/evil/sub/f'') = Some ErrNotExist \<and>
   SymlinkScopeNodeFilter restore_os ''/restore/testdata'' ''/restore/testdata/evil/sub/f'' file_node
     = (True, [])"
  by code_simp

text \<open>
  Claim C1. The backup guard is to include every path whose resolved form lies strictly
  inside the scope root and to exclude every path whose resolved form lies outside it.
  The guard tests a string prefix, so the second half fails: with scope root
  \<^verbatim>\<open>/tmp/t/foodir\<close>, the file \<^verbatim>\<open>/tmp/t/foodir2/x\<close> resolves to itself, lies outside
  the scope root (the elements of the root are not a prefix of its elements), and is
  included.
\<close>

theorem outside_scope_sibling_included:
  "\<not> path_within ''/tmp/t/foodir'' ''/tmp/t/foodir2/x'' \<and>
   EvalSymlinks backup_os ''/tmp/t/foodir2/x'' = Inr ''/tmp/t/foodir2/x'' \<and>
   RejectSymlinksOutsideScope backup_os ''/tmp/t/foodir''
     = Inr (RejectFunc backup_os ''/tmp/t/foodir'') \<and>
   RejectFunc backup_os ''/tmp/t/foodir'' ''/tmp/t/foodir2/x'' = (False, [])"
proof (intro conjI)
  show "\<not> path_within ''/tmp/t/foodir'' ''/tmp/t/foodir2/x''"
    by code_simp
  show "EvalSymlinks backup_os ''/tmp/t/foodir2/x'' = Inr ''/tmp/t/foodir2/x''"
    by code_simp
  show "RejectSymlinksOutsideScope backup_os ''/tmp/t/foodir''
          = Inr (RejectFunc backup_os ''/tmp/t/foodir'')"
    by (simp add: RejectSymlinksOutsideScope_def IsAbs_def HasPrefix_def)
  show "RejectFunc backup_os ''/tmp/t/foodir'' ''/tmp/t/foodir2/x'' = (False, [])"
    by code_simp
qed

text \<open>
  What holds of the first half: when the scope root and the resolved path are both in
  canonical form and the resolved path lies within the scope root element by element,
  the entry is included.
\<close>

lemma strings_Join_append:
  "es \<noteq> [] \<Longrightarrow> rest \<noteq> [] \<Longrightarrow>
     strings_Join (es @ rest) sep = strings_Join es sep @ sep @ strings_Join rest sep"
proof (induction es sep rule: strings_Join.induct)
  case (1 sep)
  then show ?case by simp
next
  case (2 e sep)
  then show ?case by (cases rest) simp_all
next
  case (3 e e' es sep)
  then show ?case by simp
qed

lemma within_scope_included:
  assumes "separator_canonical scopePath" and "separator_canonical target"
    and "path_within scopePath target" and "EvalSymlinks os path = Inr target"
  shows "RejectFunc os scopePath path = (False, [])"
proof -
  from assms(3) obtain rest where r: "path_elements target = path_elements scopePath @ rest"
    by (auto simp: path_within_def prefix_def)
  have "prefix scopePath target"
  proof (cases "path_elements scopePath = [] \<or> rest = []")
    case True
    with r assms(1,2) show ?thesis
      by (auto simp: separator_canonical_def)
  next
    case False
    with r have "strings_Join (path_elements target) ''/'' =
                   strings_Join (path_elements scopePath) ''/'' @ ''/'' @ strings_Join rest ''/''"
      by (simp add: strings_Join_append)
    with assms(1,2) have "target = scopePath @ ''/'' @ strings_Join rest ''/''"
      by (metis separator_canonical_def append.assoc)
    then show ?thesis
      by (metis prefixI)
  qed
  with assms(4) show ?thesis
    by (simp add: RejectFunc_def HasPrefix_iff_prefix)
qed

text \<open>
  Claim C7, as stated: a resolved path that is prefix-compatible with the scope root in
  either direction is included. It fails where the resolved path is a proper prefix of
  the scope root: the symlink \<^verbatim>\<open>foodir/outsidefoo4\<close> resolves to \<^verbatim>\<open>/tmp/t\<close>, a
  prefix of the scope root \<^verbatim>\<open>/tmp/t/foodir\<close>, and is excluded (as the repository's test
  expects).
\<close>

theorem backup_guard_bidirectional_counterexample:
  "EvalSymlinks backup_os ''/tmp/t/foodir/outsidefoo4'' = Inr ''/tmp/t'' \<and>
   HasPrefix ''/tmp/t/foodir'' ''/tmp/t'' \<and>
   RejectSymlinksOutsideScope backup_os ''/tmp/t/foodir''
     = Inr (RejectFunc backup_os ''/tmp/t/foodir'') \<and>
   fst (RejectFunc backup_os ''/tmp/t/foodir'' ''/tmp/t/foodir/outsidefoo4'') = True"
proof (intro conjI)
  show "EvalSymlinks backup_os ''/tmp/t/foodir/outsidefoo4'' = Inr ''/tmp/t''"
    by code_simp
  show "HasPrefix ''/tmp/t/foodir'' ''/tmp/t''"
    by code_simp
  show "RejectSymlinksOutsideScope backup_os ''/tmp/t/foodir''
          = Inr (RejectFunc backup_os ''/tmp/t/foodir'')"
    by (simp add: RejectSymlinksOutsideScope_def IsAbs_def HasPrefix_def)
  show "fst (RejectFunc backup_os ''/tmp/t/foodir'' ''/tmp/t/foodir/outsidefoo4'') = True"
    by code_simp
qed

text \<open>
  Claim C7, amended. For an absolute scope root and a candidate that resolves, the
  backup guard includes the entry (returns \<open>False\<close>) if and only if the resolved path
  starts with the scope root string: the test is one-directional.
\<close>

theorem backup_guard_includes_iff_scope_is_prefix:
  assumes "IsAbs scopePath" and "EvalSymlinks os path = Inr target"
  shows "\<exists>reject. RejectSymlinksOutsideScope os scopePath = Inr reject \<and>
           (fst (reject path) = False \<longleftrightarrow> HasPrefix target scopePath)"
  using assms by (simp add: RejectSymlinksOutsideScope_def RejectFunc_def)

theorem backup_guard_includes_iff_scope_is_prefix_witness:
  "IsAbs ''/tmp/t/foodir'' \<and> EvalSymlinks backup_os ''/tmp/t/123'' = Inr ''/tmp/t/foodir/foo'' \<and>
   HasPrefix ''/tmp/t/foodir/foo'' ''/tmp/t/foodir'' \<and>
   fst (RejectFunc backup_os ''/tmp/t/foodir'' ''/tmp/t/123'') = False"
proof -
  have a: "IsAbs ''/tmp/t/foodir''"
    by code_simp
  have e: "EvalSymlinks backup_os ''/tmp/t/123'' = Inr ''/tmp/t/foodir/foo''"
    by code_simp
  have p: "HasPrefix ''/tmp/t/foodir/foo'' ''/tmp/t/foodir''"
    by code_simp
  have c: "RejectSymlinksOutsideScope backup_os ''/tmp/t/foodir''
             = Inr (RejectFunc backup_os ''/tmp/t/foodir'')"
    using a by (simp add: RejectSymlinksOutsideScope_def)
  from backup_guard_includes_iff_scope_is_prefix [OF a e] c p
  have "fst (RejectFunc backup_os ''/tmp/t/foodir'' ''/tmp/t/123'') = False"
    by auto
  with a e p show ?thesis by simp
qed

text \<open>
  Claim C8. Containment is tested on raw string prefixes, so with scope \<^verbatim>\<open>/foodir\<close> the
  path \<^verbatim>\<open>/foodir2/x\<close>, which does not lie within \<^verbatim>\<open>/foodir\<close> element by element, is
  treated as contained: the backup guard includes every candidate that resolves to it,
  the restore filter allows every symlink node with this target once the ancestor step
  has passed, and it allows a non-symlink item at this path when its parent is missing
  or resolves to itself.
\<close>

theorem string_prefix_false_containment:
  "\<not> path_within ''/foodir'' ''/foodir2/x'' \<and>
   (EvalSymlinks os path = Inr ''/foodir2/x''
      \<longrightarrow> (\<exists>reject. RejectSymlinksOutsideScope os ''/foodir'' = Inr reject \<and>
             reject path = (False, []))) \<and>
   (resolve_dstdir os ''/foodir'' (Dir item) = Inr dstdir
      \<longrightarrow> SymlinkScopeNodeFilter os ''/foodir'' item (symlink_node ''/foodir2/x'') = (True, [])) \<and>
   (Type nd \<noteq> NodeTypeSymlink \<and>
    (Lstat os' ''/foodir2'' = Some ErrNotExist \<or> EvalSymlinks os' ''/foodir2'' = Inr ''/foodir2'')
      \<longrightarrow> SymlinkScopeNodeFilter os' ''/foodir'' ''/foodir2/x'' nd = (True, []))"
proof (intro conjI impI)
  show "\<not> path_within ''/foodir'' ''/foodir2/x''"
    by code_simp
next
  assume "EvalSymlinks os path = Inr ''/foodir2/x''"
  moreover have "IsAbs ''/foodir''" "HasPrefix ''/foodir2/x'' ''/foodir''"
    by code_simp+
  ultimately show "\<exists>reject. RejectSymlinksOutsideScope os ''/foodir'' = Inr reject \<and>
                     reject path = (False, [])"
    by (simp add: RejectSymlinksOutsideScope_def RejectFunc_def)
next
  assume "resolve_dstdir os ''/foodir'' (Dir item) = Inr dstdir"
  moreover have "Clean ''/foodir2/x'' = ''/foodir2/x''" "IsAbs ''/foodir2/x''"
    "HasPrefix ''/foodir2/x'' ''/foodir''"
    by code_simp+
  ultimately show "SymlinkScopeNodeFilter os ''/foodir'' item (symlink_node ''/foodir2/x'')
                     = (True, [])"
    by (simp add: SymlinkScopeNodeFilter_def check_target_def symlink_node_def)
next
  assume a: "Type nd \<noteq> NodeTypeSymlink \<and>
    (Lstat os' ''/foodir2'' = Some ErrNotExist \<or> EvalSymlinks os' ''/foodir2'' = Inr ''/foodir2'')"
  have d: "Dir ''/foodir2/x'' = ''/foodir2''"
    by code_simp
  have j: "Join [''/foodir2'', Base ''/foodir2/x''] = ''/foodir2/x''"
    by code_simp
  have p: "HasPrefix ''/foodir2/x'' ''/foodir''"
    by code_simp
  from a have "resolve_dstdir os' ''/foodir'' ''/foodir2'' = Inr ''/foodir2''"
    by (auto simp: resolve_dstdir_def IsNotExist_def split: option.splits)
  with a d j p show "SymlinkScopeNodeFilter os' ''/foodir'' ''/foodir2/x'' nd = (True, [])"
    by (simp add: SymlinkScopeNodeFilter_def check_target_def)
qed

theorem string_prefix_false_containment_witness:
  "EvalSymlinks sibling_os ''/link'' = Inr ''/foodir2/x'' \<and>
   RejectFunc sibling_os ''/foodir'' ''/link'' = (False, []) \<and>
   resolve_dstdir sibling_os ''/foodir'' (Dir ''/foodir/l'') = Inr ''/foodir'' \<and>
   SymlinkScopeNodeFilter sibling_os ''/foodir'' ''/foodir/l'' (symlink_node ''/foodir2/x'')
     = (True, []) \<and>
   Type file_node \<noteq> NodeTypeSymlink \<and> EvalSymlinks sibling_os ''/foodir2'' = Inr ''/foodir2'' \<and>
   SymlinkScopeNodeFilter sibling_os ''/foodir'' ''/foodir2/x'' file_node = (True, [])"
proof -
  have e: "EvalSymlinks sibling_os ''/link'' = Inr ''/foodir2/x''"
    by code_simp
  have c: "RejectSymlinksOutsideScope sibling_os ''/foodir''
             = Inr (RejectFunc sibling_os ''/foodir'')"
    by (simp add: RejectSymlinksOutsideScope_def IsAbs_def HasPrefix_def)
  have r: "resolve_dstdir sibling_os ''/foodir'' (Dir ''/foodir/l'') = Inr ''/foodir''"
    by code_simp
  have t: "Type file_node \<noteq> NodeTypeSymlink"
    by (simp add: file_node_def)
  have e': "EvalSymlinks sibling_os ''/foodir2'' = Inr ''/foodir2''"
    by code_simp
  note w = string_prefix_false_containment
             [of sibling_os "''/link''" "''/foodir/l''" "''/foodir''" file_node sibling_os]
  from w e c have 1: "RejectFunc sibling_os ''/foodir'' ''/link'' = (False, [])"
    by auto
  from w r have 2: "SymlinkScopeNodeFilter sibling_os ''/foodir'' ''/foodir/l''
                      (symlink_node ''/foodir2/x'') = (True, [])"
    by blast
  from w t e' have 3: "SymlinkScopeNodeFilter sibling_os ''/foodir'' ''/foodir2/x'' file_node
                         = (True, [])"
    by blast
  from e 1 r 2 t e' 3 show ?thesis by simp
qed

text \<open>
  Claim C9. Every rejection is to emit exactly one diagnostic record, and an acceptance
  none. The restore filter does not: when \<^verbatim>\<open>EvalSymlinks\<close> of the destination
  directory fails it returns \<open>False\<close> with no record emitted, where the backup guard logs
  the same failure. Here the parent of the item cannot be examined.
\<close>

theorem restore_resolution_failure_not_logged:
  "Lstat unresolvable_os (Dir ''/restore/locked/sub/f'') = Some ErrPermission \<and>
   EvalSymlinks unresolvable_os (Dir ''/restore/locked/sub/f'') = Inl ErrPermission \<and>
   SymlinkScopeNodeFilter unresolvable_os ''/restore'' ''/restore/locked/sub/f'' file_node = (False, [])"
  by code_simp

text \<open>
  What holds of the diagnostics: the backup guard emits exactly one record when it
  excludes and none when it includes; the restore filter emits none when it allows, at
  most one when it rejects, and none on rejection only when the resolution failed.
\<close>

lemma RejectFunc_diagnostics:
  "length (snd (RejectFunc os scopePath path)) = (if fst (RejectFunc os scopePath path) then 1 else 0)"
  by (simp add: RejectFunc_def split: sum.splits)

lemma SymlinkScopeNodeFilter_diagnostics:
  assumes "SymlinkScopeNodeFilter os scope item nd = (allowed, logs)"
  shows "(allowed \<longrightarrow> logs = []) \<and> length logs \<le> 1 \<and>
         (\<not> allowed \<and> logs = [] \<longrightarrow> (\<exists>err. EvalSymlinks os (Dir item) = Inl err))"
  using assms
  by (auto simp: SymlinkScopeNodeFilter_def resolve_dstdir_def check_target_def Let_def
           split: sum.splits if_splits)

section \<open>Properties of the device map\<close>

lemma longest_registered_prefixes:
  assumes "m dir = Some allowedID" and "prefix dir item"
    and "\<forall>dir'. prefix dir' item \<and> m dir' \<noteq> None \<longrightarrow> length dir' \<le> length dir"
  shows "longest_registered m (rev (prefixes item)) = Some (dir, allowedID)"
  using assms
proof (induction item rule: rev_induct)
  case Nil
  then show ?case by simp
next
  case (snoc x xs)
  show ?case
  proof (cases "dir = xs @ [x]")
    case True
    with snoc.prems(1) show ?thesis by simp
  next
    case False
    with snoc.prems(2) have p: "prefix dir xs"
      by simp
    then have "length dir \<le> length xs"
      by (rule prefix_length_le)
    with snoc.prems(3) have none: "m (xs @ [x]) = None"
      by (metis Suc_n_not_le_n length_append_singleton le_trans prefix_order.refl)
    from snoc.prems(3)
    have "\<forall>dir'. prefix dir' xs \<and> m dir' \<noteq> None \<longrightarrow> length dir' \<le> length dir"
      by (meson prefix_snoc)
    with snoc.IH snoc.prems(1) p
    have "longest_registered m (rev (prefixes xs)) = Some (dir, allowedID)"
      by blast
    with none show ?thesis by simp
  qed
qed

text \<open>
  Claim C6. On the registry of the test, \<^verbatim>\<open>/usr/local/foobar\<close> with device 5 is
  allowed, \<^verbatim>\<open>/usr/local/foobar/submount\<close> with device 23 is not, \<^verbatim>\<open>/usr\<close> with
  device 3 is not, and \<^verbatim>\<open>/root\<close> with device 1 is. In general, when \<open>dir\<close> is the
  longest registered key that is a string prefix of the item path, the item is allowed
  if and only if its device id equals the id recorded at \<open>dir\<close>.
\<close>

theorem deviceMap_longest_prefix_lookup:
  "IsAllowed test_deviceMap ''/usr/local/foobar'' 5 = Inr True \<and>
   IsAllowed test_deviceMap ''/usr/local/foobar/submount'' 23 = Inr False \<and>
   IsAllowed test_deviceMap ''/usr'' 3 = Inr False \<and>
   IsAllowed test_deviceMap ''/root'' 1 = Inr True \<and>
   (m dir = Some allowedID \<and> HasPrefix item dir \<and>
    (\<forall>dir'. HasPrefix item dir' \<and> m dir' \<noteq> None \<longrightarrow> length dir' \<le> length dir)
      \<longrightarrow> IsAllowed m item deviceID = Inr (allowedID = deviceID))"
proof (intro conjI impI)
  show "IsAllowed test_deviceMap ''/usr/local/foobar'' 5 = Inr True"
    by code_simp
  show "IsAllowed test_deviceMap ''/usr/local/foobar/submount'' 23 = Inr False"
    by code_simp
  show "IsAllowed test_deviceMap ''/usr'' 3 = Inr False"
    by code_simp
  show "IsAllowed test_deviceMap ''/root'' 1 = Inr True"
    by code_simp
next
  assume a: "m dir = Some allowedID \<and> HasPrefix item dir \<and>
    (\<forall>dir'. HasPrefix item dir' \<and> m dir' \<noteq> None \<longrightarrow> length dir' \<le> length dir)"
  then have "longest_registered m (rev (prefixes item)) = Some (dir, allowedID)"
    by (intro longest_registered_prefixes) (simp_all add: HasPrefix_iff_prefix)
  then show "IsAllowed m item deviceID = Inr (allowedID = deviceID)"
    by (simp add: IsAllowed_def)
qed

theorem deviceMap_longest_prefix_lookup_witness:
  "test_deviceMap ''/usr/local'' = Some 5 \<and> HasPrefix ''/usr/local/foobar/other'' ''/usr/local'' \<and>
   IsAllowed test_deviceMap ''/usr/local/foobar/other'' 1 = Inr False"
proof -
  have r: "test_deviceMap ''/usr/local'' = Some 5"
    by (simp add: test_deviceMap_def)
  have p: "HasPrefix ''/usr/local/foobar/other'' ''/usr/local''"
    by code_simp
  have l: "\<forall>dir'. HasPrefix ''/usr/local/foobar/other'' dir' \<and> test_deviceMap dir' \<noteq> None
             \<longrightarrow> length dir' \<le> length ''/usr/local''"
    by (auto simp: test_deviceMap_def split: if_splits)
  from deviceMap_longest_prefix_lookup
         [of test_deviceMap "''/usr/local''" 5 "''/usr/local/foobar/other''" 1] r p l
  have "IsAllowed test_deviceMap ''/usr/local/foobar/other'' 1 = Inr (5 = (1 :: 64 word))"
    by blast
  with r p show ?thesis by simp
qed

text \<open>The remaining rows of \<^verbatim>\<open>TestDeviceMap\<close>.\<close>

lemma TestDeviceMap_expectations:
  "IsAllowed test_deviceMap ''/usr'' 1 = Inr True"
  "IsAllowed test_deviceMap ''/proc'' 2 = Inr False"
  "IsAllowed test_deviceMap ''/proc/1234'' 2 = Inr False"
  "IsAllowed test_deviceMap ''/usr/share'' 3 = Inr False"
  "IsAllowed test_deviceMap ''/usr/local'' 5 = Inr True"
  "IsAllowed test_deviceMap ''/usr/local/foobar/submount/file'' 23 = Inr False"
  "IsAllowed test_deviceMap ''/usr/local/foobar/outhersubmount'' 1 = Inr False"
  "IsAllowed test_deviceMap ''/usr/local/foobar/outhersubmount/otherfile'' 1 = Inr False"
  by code_simp+

section \<open>The path functions on examples\<close>

text \<open>
  The examples of the comment in the restore filter (lines 41 to 52), and examples of
  each rule of \<^verbatim>\<open>Clean\<close>, \<^verbatim>\<open>Dir\<close> and \<^verbatim>\<open>Base\<close>.
\<close>

lemma Clean_source_comment_examples:
  "Clean ''/var/test/target/next/..'' = ''/var/test/target''"
  "Clean ''./test/target'' = ''test/target''"
  "Clean ''./var/../../target'' = ''../target''"
  "Clean ''/restore/test/../target'' = ''/restore/target''"
  "Join [''/restore/test'', ''../target''] = ''/restore/target''"
  by code_simp+

lemma Clean_rules_examples:
  "Clean '''' = ''.''"
  "Clean ''abc//def//ghi'' = ''abc/def/ghi''"
  "Clean ''abc/./def'' = ''abc/def''"
  "Clean ''abc/def/ghi/../jkl'' = ''abc/def/jkl''"
  "Clean ''abc/def/../../..'' = ''..''"
  "Clean ''/abc/def/../../..'' = ''/''"
  "Clean ''/../abc'' = ''/abc''"
  "Clean ''abc/def/../../../ghi/jkl/../../../mno'' = ''../../mno''"
  "Clean ''abc/'' = ''abc''"
  "Clean ''//abc//'' = ''/abc''"
  by code_simp+

lemma Dir_Base_examples:
  "Dir ''/restore/testdata/symlink1'' = ''/restore/testdata''"
  "Dir ''/restore'' = ''/''"
  "Dir ''file'' = ''.''"
  "Dir ''/a/b/'' = ''/a/b''"
  "Base ''/restore/testdata/symlink1'' = ''symlink1''"
  "Base ''/a/b/'' = ''b''"
  "Base ''/'' = ''/''"
  "Base '''' = ''.''"
  by code_simp+

section \<open>The expectations of the repository's tests\<close>

text \<open>
  The symlinks of \<^verbatim>\<open>TestRestoreSymlinkScope\<close> and of the test of the backup guard, with
  the answers the tests expect.
\<close>

lemma TestRestoreSymlinkScope_expectations:
  "fst (SymlinkScopeNodeFilter restore_test_os ''/b/restore0/testdata/subdir1/subdir2''
          ''/b/restore0/testdata/symlink1'' (symlink_node ''./..'')) = False"
  "fst (SymlinkScopeNodeFilter restore_test_os ''/b/restore0/testdata/subdir1/subdir2''
          ''/b/restore0/testdata/subdir1/symlink2''
          (symlink_node ''/b/restore0/testdata/subdir1/../..'')) = False"
  "fst (SymlinkScopeNodeFilter restore_test_os ''/b/restore0/testdata/subdir1/subdir2''
          ''/b/restore0/testdata/subdir1/symlink3'' (symlink_node ''/var'')) = False"
  "fst (SymlinkScopeNodeFilter restore_test_os ''/b/restore0/testdata/subdir1/subdir2''
          ''/b/restore0/testdata/symlink4''
          (symlink_node ''/b/restore0/testdata/testfile1.c'')) = False"
  "fst (SymlinkScopeNodeFilter restore_test_os ''/b/restore0/testdata/subdir1/subdir2''
          ''/b/restore0/testdata/subdir1/symlink5''
          (symlink_node ''/b/restore0/testdata/subdir1/subdir2/testfile3.docx'')) = True"
  "fst (SymlinkScopeNodeFilter restore_test_os ''/b/restore0/testdata/subdir1/subdir2''
          ''/b/restore0/testdata/symlink6''
          (symlink_node ''/b/restore0/testdata/subdir1/subdir2'')) = True"
  by code_simp+

lemma TestRejectSymlinksOutsideScope_expectations:
  "fst (RejectFunc backup_os ''/tmp/t/foodir'' ''/tmp/t/123'') = False"
  "fst (RejectFunc backup_os ''/tmp/t/foodir'' ''/tmp/t/1234'') = True"
  "fst (RejectFunc backup_os ''/tmp/t/foodir'' ''/tmp/t/foodir/outsidefoo4'') = True"
  "fst (RejectFunc backup_os ''/tmp/t/foodir'' ''/tmp/t/bardir/insidebar'') = True"
  by code_simp+

end
